theory Spec2Isabelle
  imports Main "HOL-Library.Word" "HOL-Library.Sublist"
begin

section \<open>The serving gateway of \<open>service.py\<close>\<close>

text \<open>
  A shallow embedding of \<open>src/service.py\<close>: the settings read from
  \<open>openllm_config.yaml\<close>, the routes composed from them, the two streaming
  operations \<open>generate\<close> and \<open>sights\<close>, the image encoder inside \<open>sights\<close>
  and the two handlers of the chat UI. Collaborators that the file only calls (the
  completions client, the PNG writer of the image library, the file system) are
  parameters of the functions that call them.
\<close>

subsection \<open>Settings (lines 13--23)\<close>

text \<open>
  \<open>PARAMETERS\<close> is the dictionary loaded from the YAML file. A key the code reads with
  \<open>.get(key, default)\<close> is an optional field; \<open>ENGINE_CONFIG['model']\<close> (line 61) is
  indexed without a default, so the service only starts when it is there.
\<close>

record engine_config =
  model :: string
  max_model_len :: "int option"

record parameters =
  engine_config :: engine_config
  vision :: "bool option"
  embeddings :: "bool option"

definition ENGINE_CONFIG :: "parameters \<Rightarrow> engine_config" where
  "ENGINE_CONFIG p = engine_config p"

definition SUPPORTS_VISION :: "parameters \<Rightarrow> bool" where
  "SUPPORTS_VISION p = (case vision p of None \<Rightarrow> False | Some b \<Rightarrow> b)"

definition SUPPORTS_EMBEDDINGS :: "parameters \<Rightarrow> bool" where
  "SUPPORTS_EMBEDDINGS p = (case embeddings p of None \<Rightarrow> False | Some b \<Rightarrow> b)"

definition MAX_TOKENS :: "parameters \<Rightarrow> int" where
  "MAX_TOKENS p =
     min (case max_model_len (ENGINE_CONFIG p) of None \<Rightarrow> 2048 | Some n \<Rightarrow> n) 4096"

definition model_id :: "parameters \<Rightarrow> string" where
  "model_id p = model (ENGINE_CONFIG p)"

subsection \<open>Route composition (lines 69--77, 108, 130)\<close>

datatype endpoint = show_available_models | create_chat_completion | create_embedding

datatype http_method = GET | POST

text \<open>The list built in \<open>__init__\<close>; every entry is added to \<open>openai_api_app\<close>.\<close>

definition OPENAI_ENDPOINTS :: "parameters \<Rightarrow> (string \<times> endpoint \<times> http_method list) list" where
  "OPENAI_ENDPOINTS p =
     [(''/models'', show_available_models, [GET]),
      (''/chat/completions'', create_chat_completion, [POST])]
     @ (if SUPPORTS_EMBEDDINGS p then [(''/embeddings'', create_embedding, [POST])] else [])"

definition openai_routes :: "parameters \<Rightarrow> string list" where
  "openai_routes p = map fst (OPENAI_ENDPOINTS p)"

text \<open>
  The methods of class \<open>VLLM\<close> decorated with \<open>@bentoml.api\<close>: \<open>generate\<close> is
  defined under \<open>if not SUPPORTS_EMBEDDINGS\<close>, and \<open>sights\<close> under
  \<open>if SUPPORTS_VISION\<close> nested inside it.
\<close>

definition service_apis :: "parameters \<Rightarrow> string list" where
  "service_apis p =
     (if \<not> SUPPORTS_EMBEDDINGS p
      then ''generate'' # (if SUPPORTS_VISION p then [''sights''] else [])
      else [])"

subsection \<open>Chat requests and the completions client (lines 106, 117--122)\<close>

text \<open>
  The content blocks are the dictionaries \<open>dict(type='text', text=...)\<close> and
  \<open>dict(type='image_url', image_url=dict(url=...))\<close>.
\<close>

datatype content_block = Text string | ImageUrl string

record chat_message =
  role :: string
  content :: "content_block list"

record chat_request =
  request_model :: string
  messages :: "chat_message list"
  stream :: bool
  request_max_tokens :: int

text \<open>
  The exceptions of the code paths modelled here, all of them instances of Python's
  \<open>Exception\<close>: an index out of range, a failure of the image writer, a failure of
  the completions client (connection or status error).
\<close>

datatype py_exception = IndexError | OSError string | APIError string

text \<open>A streamed chunk is read as \<open>chunk.choices[0].delta.content\<close>.\<close>

record delta =
  delta_content :: "string option"

record choice =
  choice_delta :: delta

record chunk =
  choices :: "choice list"

text \<open>
  What \<open>self.client.chat.completions.create(..., stream=True)\<close> gives for a
  request: it raises, or it returns a stream of chunks that ends by exhaustion or by
  raising while it is consumed.
\<close>

datatype stream_end = StopAsyncIteration | StreamRaises py_exception

type_synonym completion = "chunk list \<times> stream_end"

type_synonym client = "chat_request \<Rightarrow> py_exception + completion"

subsection \<open>The streaming operations (lines 110--163)\<close>

text \<open>
  The state that the operations touch: the requests that reached the completions
  client, in order, and the entries written with \<open>logger.error\<close>.
\<close>

record server =
  dispatched :: "chat_request list"
  error_log :: "py_exception list"

text \<open>
  What the consumer of an async generator sees: the values yielded, then either the
  normal end of the iteration or an exception raised out of the generator.
\<close>

datatype generator_end = Returned | Raised py_exception

record generation =
  yielded :: "string list"
  ending :: generator_end

definition error_notice :: string where
  "error_notice = ''Internal error found. Check server logs for more information''"

text \<open>Python's \<open>x or ''\<close> for an optional string: \<open>None\<close> and \<open>''\<close> are falsy.\<close>

definition or_empty :: "string option \<Rightarrow> string" where
  "or_empty x = (case x of None \<Rightarrow> [] | Some t \<Rightarrow> if t = [] then [] else t)"

text \<open>
  The loop \<open>async for chunk in completion: yield chunk.choices[0].delta.content or ''\<close>:
  the values it yields and the exception that stopped it, if one did. Indexing an empty
  \<open>choices\<close> raises \<open>IndexError\<close>.
\<close>

fun consume :: "chunk list \<Rightarrow> stream_end \<Rightarrow> string list \<times> py_exception option" where
  "consume [] StopAsyncIteration = ([], None)"
| "consume [] (StreamRaises e) = ([], Some e)"
| "consume (c # cs) fin =
     (case choices c of
        [] \<Rightarrow> ([], Some IndexError)
      | ch # _ \<Rightarrow>
          (case consume cs fin of
             (ys, r) \<Rightarrow> (or_empty (delta_content (choice_delta ch)) # ys, r)))"

text \<open>
  The body of the \<open>try\<close> block shared, word for word, by \<open>generate\<close>
  (lines 117--124) and \<open>sights\<close> (lines 152--159): the call of the client, then
  the loop. It gives the values yielded and the exception raised in it, if any.
\<close>

definition try_body :: "client \<Rightarrow> chat_request \<Rightarrow> string list \<times> py_exception option" where
  "try_body client req =
     (case client req of
        Inl e \<Rightarrow> ([], Some e)
      | Inr (chunks, fin) \<Rightarrow> consume chunks fin)"

text \<open>
  The whole \<open>try ... except Exception\<close>: the request reaches the client; an exception
  of the body is logged, the notice is yielded and the generator returns.
\<close>

definition try_stream :: "client \<Rightarrow> chat_request \<Rightarrow> server \<Rightarrow> generation \<times> server" where
  "try_stream client req s =
     (let s1 = s\<lparr>dispatched := dispatched s @ [req]\<rparr>
      in case try_body client req of
           (ys, None) \<Rightarrow> (\<lparr>yielded = ys, ending = Returned\<rparr>, s1)
         | (ys, Some e) \<Rightarrow>
             (\<lparr>yielded = ys @ [error_notice], ending = Returned\<rparr>,
              s1\<lparr>error_log := error_log s1 @ [e]\<rparr>))"

text \<open>
  The keyword arguments of \<open>create\<close>, the same in both operations but for the
  content of the single message.
\<close>

definition user_request :: "parameters \<Rightarrow> content_block list \<Rightarrow> int \<Rightarrow> chat_request" where
  "user_request p blocks max_tokens =
     \<lparr>request_model = model_id p,
      messages = [\<lparr>role = ''user'', content = blocks\<rparr>],
      stream = True,
      request_max_tokens = max_tokens\<rparr>"

definition generate ::
  "parameters \<Rightarrow> client \<Rightarrow> string \<Rightarrow> int \<Rightarrow> server \<Rightarrow> generation \<times> server" where
  "generate p client prompt max_tokens s =
     try_stream client (user_request p [Text prompt] max_tokens) s"

text \<open>The text a chunk carries: the content of its first choice, or nothing.\<close>

definition delta_text :: "chunk \<Rightarrow> string" where
  "delta_text c =
     (case choices c of [] \<Rightarrow> [] | ch # _ \<Rightarrow> or_empty (delta_content (choice_delta ch)))"

subsection \<open>Base64 (\<open>base64.b64encode\<close>, line 144)\<close>

text \<open>
  The standard library's encoder, after RFC 4648: three bytes become four characters
  of the standard alphabet, and a last group of one or two bytes is padded with
  \<open>=\<close>. The result is given as text, as \<open>.decode()\<close> makes it.
\<close>

type_synonym byte = "8 word"

definition b64_alphabet :: string where
  "b64_alphabet = ''ABCDEFGHIJKLMNOPQRSTUVWXYZabcdefghijklmnopqrstuvwxyz0123456789+/''"

definition b64_char :: "nat \<Rightarrow> char" where
  "b64_char i = b64_alphabet ! i"

fun b64encode :: "byte list \<Rightarrow> string" where
  "b64encode (a # b # c # rest) =
     (let n = (unat a * 256 + unat b) * 256 + unat c
      in b64_char (n div 64 div 64 div 64) # b64_char (n div 64 div 64 mod 64)
           # b64_char (n div 64 mod 64) # b64_char (n mod 64) # b64encode rest)"
| "b64encode [a, b] =
     (let n = (unat a * 256 + unat b) * 4
      in [b64_char (n div 64 div 64), b64_char (n div 64 mod 64), b64_char (n mod 64),
          CHR ''=''])"
| "b64encode [a] =
     (let n = unat a * 16
      in [b64_char (n div 64), b64_char (n mod 64), CHR ''='', CHR ''=''])"
| "b64encode [] = []"

text \<open>
  The decoder the round trip is stated with: it reads groups of four characters of the
  alphabet, accepts padding in the last group only, and rejects everything else.
\<close>

definition b64_index :: "char \<Rightarrow> nat option" where
  "b64_index = map_of (zip b64_alphabet [0..<64])"

fun b64decode :: "string \<Rightarrow> byte list option" where
  "b64decode [] = Some []"
| "b64decode (c0 # c1 # c2 # c3 # rest) =
     (if c3 = CHR ''='' then
        (if rest \<noteq> [] then None
         else if c2 = CHR ''='' then
           (case (b64_index c0, b64_index c1) of
              (Some i0, Some i1) \<Rightarrow> Some [of_nat ((i0 * 64 + i1) div 16)]
            | _ \<Rightarrow> None)
         else
           (case (b64_index c0, b64_index c1, b64_index c2) of
              (Some i0, Some i1, Some i2) \<Rightarrow>
                (let v = ((i0 * 64 + i1) * 64 + i2) div 4
                 in Some [of_nat (v div 256), of_nat (v mod 256)])
            | _ \<Rightarrow> None))
      else
        (case (b64_index c0, b64_index c1, b64_index c2, b64_index c3) of
           (Some i0, Some i1, Some i2, Some i3) \<Rightarrow>
             (case b64decode rest of
                None \<Rightarrow> None
              | Some bs \<Rightarrow>
                  (let n = ((i0 * 64 + i1) * 64 + i2) * 64 + i3
                   in Some (of_nat (n div 256 div 256) # of_nat (n div 256 mod 256)
                              # of_nat (n mod 256) # bs)))
         | _ \<Rightarrow> None))"
| "b64decode _ = None"

subsection \<open>\<open>sights\<close> (lines 132--163)\<close>

text \<open>
  \<open>save_png\<close> stands for \<open>image.save(buffered, format='PNG')\<close> followed by
  \<open>buffered.getvalue()\<close>: the image library either raises or leaves the PNG bytes in
  the buffer; \<open>pil_image\<close> is the parameter \<open>image\<close>, absent when it is
  \<open>None\<close>. \<open>build_content\<close> is the \<open>if image: ... else: ...\<close> of lines
  141--149, which comes before the \<open>try\<close>: an exception raised there leaves the
  generator at once.
\<close>

definition build_content ::
  "('img \<Rightarrow> py_exception + byte list) \<Rightarrow> string \<Rightarrow> 'img option
     \<Rightarrow> py_exception + content_block list" where
  "build_content save_png prompt pil_image =
     (case pil_image of
        Some img \<Rightarrow>
          (case save_png img of
             Inl e \<Rightarrow> Inl e
           | Inr buffered \<Rightarrow>
               (let img_str = b64encode buffered;
                    image_url = ''data:image/png;base64,'' @ img_str
                in Inr [ImageUrl image_url, Text prompt]))
      | None \<Rightarrow> Inr [Text prompt])"

definition sights ::
  "('img \<Rightarrow> py_exception + byte list) \<Rightarrow> parameters \<Rightarrow> client \<Rightarrow> string \<Rightarrow> 'img option
     \<Rightarrow> int \<Rightarrow> server \<Rightarrow> generation \<times> server" where
  "sights save_png p client prompt pil_image max_tokens s =
     (case build_content save_png prompt pil_image of
        Inl e \<Rightarrow> (\<lparr>yielded = [], ending = Raised e\<rparr>, s)
      | Inr blocks \<Rightarrow> try_stream client (user_request p blocks max_tokens) s)"

subsection \<open>The operations as the service exposes them (lines 110--115, 132--140)\<close>

text \<open>
  \<open>max_tokens\<close> is declared \<open>Annotated[int, Ge(128), Le(MAX_TOKENS)] = MAX_TOKENS\<close>:
  the service checks the two bounds on the value a caller sends, before the method is
  entered; a parameter the caller leaves out takes the default of the signature.
\<close>

datatype constraint = Ge int | Le int

fun satisfies :: "int \<Rightarrow> constraint \<Rightarrow> bool" where
  "satisfies v (Ge b) = (b \<le> v)"
| "satisfies v (Le b) = (v \<le> b)"

definition max_tokens_annotation :: "parameters \<Rightarrow> constraint list" where
  "max_tokens_annotation p = [Ge 128, Le (MAX_TOKENS p)]"

definition default_prompt :: string where
  "default_prompt = ''Who are you? Please respond in pirate speak!''"

definition bind_prompt :: "string option \<Rightarrow> string" where
  "bind_prompt arg = (case arg of None \<Rightarrow> default_prompt | Some t \<Rightarrow> t)"

text \<open>The bound value of \<open>max_tokens\<close>, or \<open>None\<close> when the value sent is refused.\<close>

definition bind_max_tokens :: "parameters \<Rightarrow> int option \<Rightarrow> int option" where
  "bind_max_tokens p arg =
     (case arg of
        None \<Rightarrow> Some (MAX_TOKENS p)
      | Some v \<Rightarrow> if list_all (satisfies v) (max_tokens_annotation p) then Some v else None)"

datatype api_response = ValidationError | Streaming generation

definition api_generate ::
  "parameters \<Rightarrow> client \<Rightarrow> string option \<Rightarrow> int option \<Rightarrow> server
     \<Rightarrow> api_response \<times> server" where
  "api_generate p client prompt_arg max_tokens_arg s =
     (case bind_max_tokens p max_tokens_arg of
        None \<Rightarrow> (ValidationError, s)
      | Some max_tokens \<Rightarrow>
          (case generate p client (bind_prompt prompt_arg) max_tokens s of
             (g, s') \<Rightarrow> (Streaming g, s')))"

definition api_sights ::
  "('img \<Rightarrow> py_exception + byte list) \<Rightarrow> parameters \<Rightarrow> client \<Rightarrow> string option
     \<Rightarrow> 'img option \<Rightarrow> int option \<Rightarrow> server \<Rightarrow> api_response \<times> server" where
  "api_sights save_png p client prompt_arg pil_image max_tokens_arg s =
     (case bind_max_tokens p max_tokens_arg of
        None \<Rightarrow> (ValidationError, s)
      | Some max_tokens \<Rightarrow>
          (case sights save_png p client (bind_prompt prompt_arg) pil_image max_tokens s of
             (g, s') \<Rightarrow> (Streaming g, s')))"

subsection \<open>The chat UI (lines 11, 30--40)\<close>

text \<open>\<open>os.path.join\<close> of two POSIX paths.\<close>

definition os_path_join :: "string \<Rightarrow> string \<Rightarrow> string" where
  "os_path_join a b =
     (if take 1 b = ''/'' then b
      else if a = [] \<or> last a = CHR ''/'' then a @ b
      else a @ ''/'' @ b)"

text \<open>\<open>here\<close> is \<open>os.path.dirname(__file__)\<close>, the directory of \<open>service.py\<close>.\<close>

definition STATIC_DIR :: "string \<Rightarrow> string" where
  "STATIC_DIR here = os_path_join here ''ui''"

datatype response = FileResponse string

definition serve_chat_html :: "string \<Rightarrow> response" where
  "serve_chat_html here = FileResponse (os_path_join (STATIC_DIR here) ''chat.html'')"

text \<open>\<open>path_exists\<close> is \<open>os.path.exists\<close> on the file system of the server.\<close>

definition catch_all :: "(string \<Rightarrow> bool) \<Rightarrow> string \<Rightarrow> string \<Rightarrow> response" where
  "catch_all path_exists here full_path =
     (let file_path = os_path_join (STATIC_DIR here) full_path
      in if path_exists file_path then FileResponse file_path
         else FileResponse (os_path_join (STATIC_DIR here) ''chat.html''))"

subsection \<open>Confinement to a directory\<close>

text \<open>
  The notion the confinement property is stated with, for absolute paths: a path is
  split at \<open>/\<close>, empty components and \<open>.\<close> are dropped, \<open>..\<close> removes the
  component before it (and stays at the root when there is none); a path lies inside
  a directory when the resolved directory is a prefix of the resolved path.
\<close>

fun components :: "string \<Rightarrow> string list" where
  "components [] = [[]]"
| "components (c # cs) =
     (if c = CHR ''/'' then [] # components cs
      else (case components cs of
              [] \<Rightarrow> [[c]]
            | w # ws \<Rightarrow> (c # w) # ws))"

fun resolve :: "string list \<Rightarrow> string list \<Rightarrow> string list" where
  "resolve stack [] = rev stack"
| "resolve stack (c # cs) =
     (if c = [] \<or> c = ''.'' then resolve stack cs
      else if c = ''..'' then resolve (tl stack) cs
      else resolve (c # stack) cs)"

definition inside :: "string \<Rightarrow> string \<Rightarrow> bool" where
  "inside dir path = prefix (resolve [] (components dir)) (resolve [] (components path))"

subsection \<open>Sample inputs\<close>

text \<open>
  Concrete inputs on which the properties below are exercised: a configuration with
  vision, one whose declared length is below the floor of 128, stub clients (one
  streams six chunks, one breaks in mid-stream, one refuses the call, one streams a
  chunk whose \<open>choices\<close> is empty between two chunks of text), and a stub image
  writer for images given as a mode and the bytes of their PNG form, which cannot
  write the mode \<open>CMYK\<close>.
\<close>

definition sample_parameters :: parameters where
  "sample_parameters =
     \<lparr>engine_config =
        \<lparr>model = ''mistralai/Mistral-Large-Instruct-2407'', max_model_len = Some 8192\<rparr>,
      vision = Some True, embeddings = None\<rparr>"

definition text_chunk :: "string option \<Rightarrow> chunk" where
  "text_chunk t = \<lparr>choices = [\<lparr>choice_delta = \<lparr>delta_content = t\<rparr>\<rparr>]\<rparr>"

definition pong_client :: client where
  "pong_client req =
     Inr ([text_chunk (Some ''p''), text_chunk (Some ''o''), text_chunk None,
           text_chunk (Some ''n''), text_chunk (Some []), text_chunk (Some ''g'')],
          StopAsyncIteration)"

definition broken_client :: client where
  "broken_client req =
     Inr ([text_chunk (Some ''p''), text_chunk None],
          StreamRaises (APIError ''connection reset''))"

definition refusing_client :: client where
  "refusing_client req = Inl (APIError ''connection refused'')"

definition fresh_server :: server where
  "fresh_server = \<lparr>dispatched = [], error_log = []\<rparr>"

definition sample_save_png :: "string \<times> byte list \<Rightarrow> py_exception + byte list" where
  "sample_save_png img =
     (if fst img = ''CMYK'' then Inl (OSError ''cannot write mode CMYK as PNG'')
      else Inr (snd img))"



section \<open>Properties\<close>

subsection \<open>Token ceiling and its defaults\<close>

text \<open>
  Claim C7. When the engine configuration declares \<open>max_model_len\<close>, the resolved
  ceiling \<open>MAX_TOKENS\<close> is the minimum of the declared length and 4096; and for every
  configuration, declared length or not, the ceiling is at most 4096.
\<close>

theorem max_tokens_is_min_of_declared_and_4096:
  "(max_model_len (ENGINE_CONFIG p) = Some n \<longrightarrow> MAX_TOKENS p = min n 4096)
   \<and> MAX_TOKENS p \<le> 4096"
  by (simp add: MAX_TOKENS_def)

theorem max_tokens_is_min_witness:
  "MAX_TOKENS \<lparr>engine_config = \<lparr>model = ''m'', max_model_len = Some 32768\<rparr>,
       vision = None, embeddings = None\<rparr> = 4096
   \<and> MAX_TOKENS \<lparr>engine_config = \<lparr>model = ''m'', max_model_len = Some 1024\<rparr>,
       vision = None, embeddings = None\<rparr> = 1024"
  using max_tokens_is_min_of_declared_and_4096
          [of "\<lparr>engine_config = \<lparr>model = ''m'', max_model_len = Some 32768\<rparr>,
                 vision = None, embeddings = None\<rparr>" 32768]
        max_tokens_is_min_of_declared_and_4096
          [of "\<lparr>engine_config = \<lparr>model = ''m'', max_model_len = Some 1024\<rparr>,
                 vision = None, embeddings = None\<rparr>" 1024]
  by (simp add: ENGINE_CONFIG_def)



subsection \<open>Routes\<close>

text \<open>
  Claim C3. For every configuration: the embeddings route is among the OpenAI routes
  exactly when embeddings are supported; \<open>sights\<close> is among the service's operations
  exactly when vision is supported and embeddings are not; and \<open>generate\<close> is among
  them exactly when embeddings are not supported.
\<close>

theorem routes_follow_capabilities:
  "(''/embeddings'' \<in> set (openai_routes p)) = SUPPORTS_EMBEDDINGS p
   \<and> (''sights'' \<in> set (service_apis p)) = (SUPPORTS_VISION p \<and> \<not> SUPPORTS_EMBEDDINGS p)
   \<and> (''generate'' \<in> set (service_apis p)) = (\<not> SUPPORTS_EMBEDDINGS p)"
  by (cases "SUPPORTS_EMBEDDINGS p"; cases "SUPPORTS_VISION p")
     (simp_all add: openai_routes_def OPENAI_ENDPOINTS_def service_apis_def)

theorem routes_follow_capabilities_witness:
  "service_apis \<lparr>engine_config = \<lparr>model = ''m'', max_model_len = None\<rparr>,
       vision = Some True, embeddings = None\<rparr> = [''generate'', ''sights'']
   \<and> ''/embeddings'' \<notin> set (openai_routes
        \<lparr>engine_config = \<lparr>model = ''m'', max_model_len = None\<rparr>,
          vision = Some True, embeddings = None\<rparr>)
   \<and> service_apis \<lparr>engine_config = \<lparr>model = ''m'', max_model_len = None\<rparr>,
       vision = Some True, embeddings = Some True\<rparr> = []"
  using routes_follow_capabilities
          [of "\<lparr>engine_config = \<lparr>model = ''m'', max_model_len = None\<rparr>,
                 vision = Some True, embeddings = None\<rparr>"]
  by (simp add: service_apis_def SUPPORTS_VISION_def SUPPORTS_EMBEDDINGS_def)

subsection \<open>Validation of \<open>max_tokens\<close>\<close>

text \<open>Every run of the \<open>try\<close> block sends its request to the client, once.\<close>

lemma try_stream_dispatched:
  "dispatched (snd (try_stream client req s)) = dispatched s @ [req]"
  by (simp add: try_stream_def Let_def split: prod.splits option.splits)




subsection \<open>The stream and its failures\<close>

lemma consume_all:
  "\<forall>c\<in>set chunks. choices c \<noteq> [] \<Longrightarrow>
   consume chunks fin =
     (map delta_text chunks, case fin of StopAsyncIteration \<Rightarrow> None | StreamRaises e \<Rightarrow> Some e)"
proof (induction chunks)
  case Nil
  show ?case by (cases fin) simp_all
next
  case (Cons c cs)
  then show ?case
    by (cases "choices c") (simp_all add: delta_text_def)
qed

text \<open>
  Inside the \<open>try\<close> block every failure is contained: whether the call of the
  client raises or the stream raises while it is consumed, the operation yields what
  it had yielded, then the notice, and returns; the exception is in the error log.
\<close>

lemma failures_in_try_contained:
  "(client req = Inl e \<longrightarrow>
      try_stream client req s =
        (\<lparr>yielded = [''Internal error found. Check server logs for more information''],
          ending = Returned\<rparr>,
         s\<lparr>dispatched := dispatched s @ [req], error_log := error_log s @ [e]\<rparr>))
   \<and> (client req = Inr (chunks, fin) \<and> consume chunks fin = (ys, Some e') \<longrightarrow>
      try_stream client req s =
        (\<lparr>yielded = ys @ [''Internal error found. Check server logs for more information''],
          ending = Returned\<rparr>,
         s\<lparr>dispatched := dispatched s @ [req], error_log := error_log s @ [e']\<rparr>))"
  by (simp add: try_stream_def try_body_def error_notice_def)

text \<open>
  Claim C1, as the code behaves. In \<open>sights\<close> the request is put together before
  the \<open>try\<close> block is entered. A call with an accepted \<open>max_tokens\<close> and an image
  that the writer cannot serialise ends with the exception raised out of the
  generator: no notice is yielded, nothing is logged, no request reaches the client.
  The same call without an image, and a call of \<open>generate\<close>, end with the notice
  when the client fails.
\<close>

theorem sights_construction_failure_not_contained:
  "api_sights sample_save_png sample_parameters pong_client (Some ''what is this?'')
     (Some (''CMYK'', [])) (Some 128) fresh_server =
     (Streaming \<lparr>yielded = [], ending = Raised (OSError ''cannot write mode CMYK as PNG'')\<rparr>,
      \<lparr>dispatched = [], error_log = []\<rparr>)
   \<and> api_sights sample_save_png sample_parameters refusing_client (Some ''what is this?'')
       None (Some 128) fresh_server =
     (Streaming
        \<lparr>yielded = [''Internal error found. Check server logs for more information''],
          ending = Returned\<rparr>,
      \<lparr>dispatched =
         [\<lparr>request_model = ''mistralai/Mistral-Large-Instruct-2407'',
           messages = [\<lparr>role = ''user'', content = [Text ''what is this?'']\<rparr>],
           stream = True, request_max_tokens = 128\<rparr>],
       error_log = [APIError ''connection refused'']\<rparr>)
   \<and> api_generate sample_parameters broken_client (Some ''ping'') (Some 128) fresh_server =
     (Streaming
        \<lparr>yielded = [''p'', [], ''Internal error found. Check server logs for more information''],
          ending = Returned\<rparr>,
      \<lparr>dispatched =
         [\<lparr>request_model = ''mistralai/Mistral-Large-Instruct-2407'',
           messages = [\<lparr>role = ''user'', content = [Text ''ping'']\<rparr>],
           stream = True, request_max_tokens = 128\<rparr>],
       error_log = [APIError ''connection reset'']\<rparr>)"
  by (simp add: api_sights_def api_generate_def sights_def generate_def build_content_def
        sample_save_png_def bind_max_tokens_def max_tokens_annotation_def MAX_TOKENS_def
        ENGINE_CONFIG_def sample_parameters_def bind_prompt_def try_stream_def try_body_def
        user_request_def model_id_def broken_client_def refusing_client_def text_chunk_def
        or_empty_def error_notice_def fresh_server_def)

text \<open>
  When the client returns a stream whose chunks all carry a choice, the
  values that \<open>generate\<close> and \<open>sights\<close> yield are the delta texts of the chunks, one
  for each chunk and in the order received, the empty string standing for a chunk
  without new text; the notice follows them only if the stream ends by raising.
\<close>

lemma chunks_reemitted_in_order:
  assumes "\<forall>c\<in>set chunks. choices c \<noteq> []"
  shows "(client (user_request p [Text prompt] v) = Inr (chunks, fin) \<longrightarrow>
            yielded (fst (generate p client prompt v s)) =
              map delta_text chunks
              @ (case fin of StopAsyncIteration \<Rightarrow> [] | StreamRaises e \<Rightarrow> [error_notice]))
       \<and> (build_content save_png prompt pil_image = Inr blocks
            \<and> client (user_request p blocks v) = Inr (chunks, fin) \<longrightarrow>
            yielded (fst (sights save_png p client prompt pil_image v s)) =
              map delta_text chunks
              @ (case fin of StopAsyncIteration \<Rightarrow> [] | StreamRaises e \<Rightarrow> [error_notice]))"
  using consume_all [OF assms, of fin]
  by (cases fin) (simp_all add: generate_def sights_def try_stream_def try_body_def)

lemma chunks_reemitted_sample:
  "yielded (fst (generate sample_parameters pong_client ''ping'' 128 fresh_server)) =
     [''p'', ''o'', [], ''n'', [], ''g'']
   \<and> yielded (fst (sights sample_save_png sample_parameters broken_client ''ping'' None 128
                     fresh_server)) = [''p'', [], error_notice]"
  using chunks_reemitted_in_order
          [where chunks = "[text_chunk (Some ''p''), text_chunk (Some ''o''), text_chunk None,
                            text_chunk (Some ''n''), text_chunk (Some []), text_chunk (Some ''g'')]"
             and client = pong_client and p = sample_parameters and prompt = "''ping''"
             and v = 128 and fin = StopAsyncIteration and s = fresh_server
             and save_png = sample_save_png and pil_image = None
             and blocks = "[Text ''ping'']"]
        chunks_reemitted_in_order
          [where chunks = "[text_chunk (Some ''p''), text_chunk None]"
             and client = broken_client and p = sample_parameters and prompt = "''ping''"
             and v = 128 and fin = "StreamRaises (APIError ''connection reset'')"
             and s = fresh_server and save_png = sample_save_png and pil_image = None
             and blocks = "[Text ''ping'']"]
  by (simp add: pong_client_def broken_client_def text_chunk_def delta_text_def or_empty_def
        build_content_def)


subsection \<open>Base64 round trip\<close>

lemma b64_alphabet_length: "length b64_alphabet = 64"
  by (simp add: b64_alphabet_def)

lemma b64_alphabet_distinct: "distinct b64_alphabet"
  by (simp add: b64_alphabet_def)

lemma pad_not_in_alphabet: "CHR ''='' \<notin> set b64_alphabet"
  by (simp add: b64_alphabet_def)

lemma b64_index_char: "i < 64 \<Longrightarrow> b64_index (b64_char i) = Some i"
  unfolding b64_index_def b64_char_def
  using map_of_zip_nth [of b64_alphabet "[0..<64]" i]
  by (simp add: b64_alphabet_length b64_alphabet_distinct)

lemma b64_char_not_pad:
  assumes "i < 64"
  shows "b64_char i \<noteq> CHR ''=''"
proof -
  have "b64_alphabet ! i \<in> set b64_alphabet"
    by (rule nth_mem) (simp add: b64_alphabet_length assms)
  with pad_not_in_alphabet show ?thesis
    unfolding b64_char_def by metis
qed

lemma unat_byte_less: "unat (a :: byte) < 256"
  using unsigned_less [of a] by simp

lemma div64_less:
  fixes n :: nat
  shows "n < 64 * m \<Longrightarrow> n div 64 < m"
  by (simp add: less_mult_imp_div_less mult.commute)

lemma sextets_recompose:
  fixes n :: nat
  shows "((n div 64 div 64 div 64 * 64 + n div 64 div 64 mod 64) * 64 + n div 64 mod 64) * 64
           + n mod 64 = n"
    and "(n div 64 div 64 * 64 + n div 64 mod 64) * 64 + n mod 64 = n"
    and "n div 64 * 64 + n mod 64 = n"
  by (simp_all only: div_mult_mod_eq)

lemma base256_digits:
  fixes a b :: nat
  assumes "b < 256"
  shows "(a * 256 + b) div 256 = a" and "(a * 256 + b) mod 256 = b"
  using assms by simp_all

lemma b64decode_b64encode: "b64decode (b64encode bs) = Some bs"
proof (induction bs rule: b64encode.induct)
  case (1 a b c rest)
  define n where "n = (unat a * 256 + unat b) * 256 + unat c"
  have "n < 64 * (64 * (64 * 64))"
    using unat_byte_less [of a] unat_byte_less [of b] unat_byte_less [of c]
    unfolding n_def by simp
  then have top: "n div 64 div 64 div 64 < 64"
    by (intro div64_less) simp
  have bytes: "n div 256 div 256 = unat a" "n div 256 mod 256 = unat b" "n mod 256 = unat c"
    unfolding n_def by (simp_all only: base256_digits unat_byte_less)
  show ?case
    using 1 top
    by (simp only: b64encode.simps b64decode.simps Let_def n_def [symmetric]
          b64_index_char b64_char_not_pad sextets_recompose)
       (simp add: b64_index_char b64_char_not_pad bytes)
next
  case (2 a b)
  define n where "n = (unat a * 256 + unat b) * 4"
  have "n < 64 * (64 * 64)"
    using unat_byte_less [of a] unat_byte_less [of b]
    unfolding n_def by simp
  then have top: "n div 64 div 64 < 64"
    by (intro div64_less) simp
  have quarter: "n div 4 = unat a * 256 + unat b"
    unfolding n_def by simp
  have bytes: "n div 4 div 256 = unat a" "n div 4 mod 256 = unat b"
    unfolding quarter by (simp_all only: base256_digits unat_byte_less)
  show ?case
    using top
    by (simp only: b64encode.simps b64decode.simps Let_def n_def [symmetric]
          b64_index_char b64_char_not_pad sextets_recompose)
       (simp add: b64_index_char b64_char_not_pad bytes)
next
  case (3 a)
  define n where "n = unat a * 16"
  have "n < 64 * 64"
    using unat_byte_less [of a] unfolding n_def by simp
  then have top: "n div 64 < 64"
    by (intro div64_less) simp
  have sixteenth: "n div 16 = unat a"
    unfolding n_def by simp
  show ?case
    using top
    by (simp only: b64encode.simps b64decode.simps Let_def n_def [symmetric]
          b64_index_char b64_char_not_pad sextets_recompose)
       (simp add: b64_index_char b64_char_not_pad sixteenth)
next
  case 4
  show ?case by simp
qed

subsection \<open>The image block of \<open>sights\<close>\<close>

text \<open>
  Claim C4. When an image is supplied and the image writer gives the bytes \<open>png\<close>,
  the content built by \<open>sights\<close> is the image block followed by the text block; the
  URL of the image block is \<open>data:image/png;base64,\<close> followed by the Base64 text of
  \<open>png\<close>; the request that reaches the client has one message, of the user, whose
  content is exactly these two blocks, the image block first; and decoding the payload
  of the URL gives \<open>png\<close> back.
\<close>

theorem sights_image_block_round_trip:
  assumes "save_png img = Inr png"
  shows "build_content save_png prompt (Some img) =
           Inr [ImageUrl (''data:image/png;base64,'' @ b64encode png), Text prompt]
       \<and> dispatched (snd (sights save_png p client prompt (Some img) v s)) =
           dispatched s
           @ [user_request p
                [ImageUrl (''data:image/png;base64,'' @ b64encode png), Text prompt] v]
       \<and> messages (last (dispatched (snd (sights save_png p client prompt (Some img) v s)))) =
           [\<lparr>role = ''user'',
             content = [ImageUrl (''data:image/png;base64,'' @ b64encode png), Text prompt]\<rparr>]
       \<and> b64decode (drop (length ''data:image/png;base64,'')
                        (''data:image/png;base64,'' @ b64encode png)) = Some png"
proof -
  have built: "build_content save_png prompt (Some img) =
      Inr [ImageUrl (''data:image/png;base64,'' @ b64encode png), Text prompt]"
    using assms by (simp add: build_content_def)
  have sent: "dispatched (snd (sights save_png p client prompt (Some img) v s)) =
      dispatched s
      @ [user_request p [ImageUrl (''data:image/png;base64,'' @ b64encode png), Text prompt] v]"
    by (simp add: sights_def built try_stream_dispatched)
  have message:
    "messages (last (dispatched (snd (sights save_png p client prompt (Some img) v s)))) =
       [\<lparr>role = ''user'',
         content = [ImageUrl (''data:image/png;base64,'' @ b64encode png), Text prompt]\<rparr>]"
    unfolding sent by (simp add: user_request_def)
  have "b64decode (drop (length ''data:image/png;base64,'')
          (''data:image/png;base64,'' @ b64encode png)) = b64decode (b64encode png)"
    by simp
  with built sent message show ?thesis
    by (simp only: b64decode_b64encode simp_thms)
qed

theorem sights_image_block_witness:
  "build_content sample_save_png ''what is this?'' (Some (''RGB'', [0x89, 0x50, 0x4E, 0x47])) =
     Inr [ImageUrl ''data:image/png;base64,iVBORw=='', Text ''what is this?'']
   \<and> dispatched (snd (sights sample_save_png sample_parameters pong_client ''what is this?''
                        (Some (''RGB'', [0x89, 0x50, 0x4E, 0x47])) 128 fresh_server)) =
       [\<lparr>request_model = ''mistralai/Mistral-Large-Instruct-2407'',
         messages =
           [\<lparr>role = ''user'',
             content = [ImageUrl ''data:image/png;base64,iVBORw=='', Text ''what is this?'']\<rparr>],
         stream = True, request_max_tokens = 128\<rparr>]
   \<and> b64decode (b64encode [0x89, 0x50, 0x4E, 0x47]) = Some [0x89, 0x50, 0x4E, 0x47]"
  using sights_image_block_round_trip
          [where save_png = sample_save_png and img = "(''RGB'', [0x89, 0x50, 0x4E, 0x47])"
             and png = "[0x89, 0x50, 0x4E, 0x47]" and prompt = "''what is this?''"
             and p = sample_parameters and client = pong_client and v = 128
             and s = fresh_server]
  by (simp add: sample_save_png_def b64_char_def b64_alphabet_def user_request_def
        model_id_def ENGINE_CONFIG_def sample_parameters_def fresh_server_def)

text \<open>
  Claim C5, as the code behaves. When the image writer raises \<open>e\<close> for the image
  supplied, \<open>sights\<close> yields nothing, not even the notice, and \<open>e\<close> leaves the
  generator; the server state is unchanged, so nothing is logged and no request
  reaches the client.
\<close>

theorem sights_encoding_failure_escapes:
  assumes "save_png img = Inl e"
  shows "sights save_png p client prompt (Some img) v s =
           (\<lparr>yielded = [], ending = Raised e\<rparr>, s)"
  using assms by (simp add: sights_def build_content_def)

theorem sights_encoding_failure_witness:
  "sights sample_save_png sample_parameters pong_client ''what is this?''
     (Some (''CMYK'', [])) 128 fresh_server =
     (\<lparr>yielded = [], ending = Raised (OSError ''cannot write mode CMYK as PNG'')\<rparr>,
      fresh_server)"
  using sights_encoding_failure_escapes
          [where save_png = sample_save_png and img = "(''CMYK'', [])"
             and e = "OSError ''cannot write mode CMYK as PNG''"
             and p = sample_parameters and client = pong_client
             and prompt = "''what is this?''" and v = 128 and s = fresh_server]
  by (simp add: sample_save_png_def)

subsection \<open>The chat UI\<close>

lemma STATIC_DIR_end: "STATIC_DIR here \<noteq> [] \<and> last (STATIC_DIR here) = CHR ''i''"
  by (simp add: STATIC_DIR_def os_path_join_def)

lemma join_static_relative:
  assumes "take 1 full_path \<noteq> ''/''"
  shows "os_path_join (STATIC_DIR here) full_path = STATIC_DIR here @ ''/'' @ full_path"
  using assms STATIC_DIR_end [of here] by (simp add: os_path_join_def)

text \<open>
  The handler of the root route answers with \<open>chat.html\<close> of the static
  directory. The handler of every other path answers with the file that the path
  names under the static directory when that file exists, and with the same
  \<open>chat.html\<close> otherwise; for a path that does not start with \<open>/\<close> the file looked
  up is the static directory, a separator, and the path.
\<close>

lemma ui_serves_entry_file_or_fallback:
  "serve_chat_html here = FileResponse (STATIC_DIR here @ ''/chat.html'')
   \<and> catch_all path_exists here full_path =
       (if path_exists (os_path_join (STATIC_DIR here) full_path)
        then FileResponse (os_path_join (STATIC_DIR here) full_path)
        else serve_chat_html here)
   \<and> (take 1 full_path \<noteq> ''/'' \<longrightarrow>
        os_path_join (STATIC_DIR here) full_path = STATIC_DIR here @ ''/'' @ full_path)"
proof -
  have entry: "serve_chat_html here = FileResponse (STATIC_DIR here @ ''/chat.html'')"
    using join_static_relative [of "''chat.html''" here]
    by (simp add: serve_chat_html_def)
  have "catch_all path_exists here full_path =
       (if path_exists (os_path_join (STATIC_DIR here) full_path)
        then FileResponse (os_path_join (STATIC_DIR here) full_path)
        else serve_chat_html here)"
    by (simp add: catch_all_def serve_chat_html_def)
  with entry show ?thesis
    using join_static_relative [of full_path here] by blast
qed

lemma ui_serves_sample:
  "catch_all (\<lambda>path. path = ''/srv/src/ui/app.js'') ''/srv/src'' ''app.js'' =
     FileResponse ''/srv/src/ui/app.js''
   \<and> catch_all (\<lambda>path. path = ''/srv/src/ui/app.js'') ''/srv/src'' ''missing.js'' =
     FileResponse ''/srv/src/ui/chat.html''"
  using ui_serves_entry_file_or_fallback
          [of "''/srv/src''" "\<lambda>path. path = ''/srv/src/ui/app.js''" "''app.js''"]
        ui_serves_entry_file_or_fallback
          [of "''/srv/src''" "\<lambda>path. path = ''/srv/src/ui/app.js''" "''missing.js''"]
  by (simp add: STATIC_DIR_def os_path_join_def)

text \<open>
  An absolute path replaces the static directory in the join, so the handler serves
  any existing file that such a path names.
\<close>

lemma catch_all_absolute_path:
  assumes "take 1 full_path = ''/''" and "path_exists full_path"
  shows "catch_all path_exists here full_path = FileResponse full_path"
  using assms by (simp add: catch_all_def os_path_join_def)

text \<open>
  Claim C6, as the code behaves. With \<open>service.py\<close> in \<open>/srv/src\<close>, the catch-all
  handler answers the path \<open>/etc/passwd\<close> with the file \<open>/etc/passwd\<close>, and the
  path \<open>../service.py\<close> with the file \<open>/srv/src/ui/../service.py\<close>, when those
  files exist; neither lies inside the static directory \<open>/srv/src/ui\<close>.
\<close>

theorem catch_all_leaves_static_root:
  "catch_all (\<lambda>path. path = ''/etc/passwd'') ''/srv/src'' ''/etc/passwd'' =
     FileResponse ''/etc/passwd''
   \<and> \<not> inside (STATIC_DIR ''/srv/src'') ''/etc/passwd''
   \<and> catch_all (\<lambda>path. path = ''/srv/src/ui/../service.py'') ''/srv/src'' ''../service.py'' =
     FileResponse ''/srv/src/ui/../service.py''
   \<and> \<not> inside (STATIC_DIR ''/srv/src'') ''/srv/src/ui/../service.py''"
  by (simp add: catch_all_def STATIC_DIR_def os_path_join_def inside_def)

text \<open>
  Claim C9, as the code behaves. With \<open>service.py\<close> in \<open>/srv/src\<close> the entry
  document is \<open>/srv/src/ui/chat.html\<close>, and a path that names no existing file is
  answered with it. But the path \<open>/etc/passwd\<close> is answered with the file
  \<open>/etc/passwd\<close>, and the path \<open>../service.py\<close> with
  \<open>/srv/src/ui/../service.py\<close>, when those exist: neither answer is a file inside
  the static directory, and neither is the entry document.
\<close>

theorem catch_all_answers_outside_root_not_fallback:
  "serve_chat_html ''/srv/src'' = FileResponse ''/srv/src/ui/chat.html''
   \<and> catch_all (\<lambda>path. path = ''/etc/passwd'') ''/srv/src'' ''missing.js'' =
       FileResponse ''/srv/src/ui/chat.html''
   \<and> catch_all (\<lambda>path. path = ''/etc/passwd'') ''/srv/src'' ''/etc/passwd'' =
       FileResponse ''/etc/passwd''
   \<and> \<not> inside ''/srv/src/ui'' ''/etc/passwd''
   \<and> catch_all (\<lambda>path. path = ''/srv/src/ui/../service.py'') ''/srv/src'' ''../service.py'' =
       FileResponse ''/srv/src/ui/../service.py''
   \<and> \<not> inside ''/srv/src/ui'' ''/srv/src/ui/../service.py''
   \<and> inside ''/srv/src/ui'' ''/srv/src/ui/chat.html''"
  by (simp add: catch_all_def serve_chat_html_def STATIC_DIR_def os_path_join_def inside_def)

end
